theory Spec2Isabelle
  imports Complex_Main
begin

section \<open>The screenshot route: data model\<close>

text \<open>
  The theory embeds \<^verbatim>\<open>src/app/api/screenshot/route.ts\<close>: the three per-site checks
  (\<^verbatim>\<open>checkWebsiteStatus\<close>, \<^verbatim>\<open>getSSLCertificateInfo\<close>, \<^verbatim>\<open>takeScreenshot\<close>) and the
  handler \<^verbatim>\<open>POST\<close> that runs them for every website of a request and merges their
  answers. Everything the code receives from outside (the HTTP response, the TLS
  socket's events, the browser's behaviour, the clock, the platform's date and URL
  parsers) is a field of a world record, so each function is a pure function of the
  world it runs in. An optional field of a TypeScript type is an \<open>option\<close>.
\<close>

datatype status = Up | Down | Error

text \<open>The type \<^verbatim>\<open>Website\<close> of \<^verbatim>\<open>@/lib/supabase\<close>: the handler reads \<^verbatim>\<open>id\<close> and \<^verbatim>\<open>url\<close> only.\<close>

record Website =
  id_w :: int
  url_w :: string

record ScreenshotResult =
  id_res :: int
  url_res :: string
  screenshot_path :: "string option"
  status :: status
  ssl_valid :: bool
  ssl_expires :: "string option"
  ssl_days_remaining :: "int option"
  ssl_issued_date :: "string option"
  response_time :: "int option"
  error_message :: "string option"

text \<open>What \<^verbatim>\<open>getSSLCertificateInfo\<close> resolves to.\<close>

record ssl_info =
  ssl_valid_si :: bool
  ssl_expires_si :: "string option"
  ssl_days_remaining_si :: "int option"
  ssl_issued_date_si :: "string option"

text \<open>What \<^verbatim>\<open>checkWebsiteStatus\<close> resolves to.\<close>

record status_check =
  status_sc :: status
  ssl_valid_sc :: bool
  response_time_sc :: "int option"
  error_message_sc :: "string option"

text \<open>
  How an asynchronous call ends: it returns a value, it throws (its promise rejects), or
  its promise never settles.
\<close>

datatype 'a completion = Returns 'a | Throws | Never

subsection \<open>JavaScript helpers\<close>

text \<open>Truthiness of an optional string: \<^verbatim>\<open>undefined\<close>, \<^verbatim>\<open>null\<close> and \<^verbatim>\<open>""\<close> are falsy.\<close>

definition truthy :: "string option \<Rightarrow> bool" where
  "truthy v = (case v of None \<Rightarrow> False | Some s \<Rightarrow> s \<noteq> [])"

text \<open>\<^verbatim>\<open>s.startsWith(p)\<close>.\<close>

definition startsWith :: "string \<Rightarrow> string \<Rightarrow> bool" where
  "startsWith s p = (take (length p) s = p)"

text \<open>\<^verbatim>\<open>s.substring(0, n)\<close>.\<close>

definition substring0 :: "string \<Rightarrow> nat \<Rightarrow> string" where
  "substring0 s n = take n s"

text \<open>\<^verbatim>\<open>s.split('T')[0]\<close>: the text before the first \<^verbatim>\<open>T\<close>.\<close>

definition split_T_first :: "string \<Rightarrow> string" where
  "split_T_first s = takeWhile (\<lambda>c. c \<noteq> CHR ''T'') s"

text \<open>The decimal text of an integer, as a template literal prints it.\<close>

definition digit_char :: "nat \<Rightarrow> char" where
  "digit_char d = ''0123456789'' ! d"

fun string_of_nat :: "nat \<Rightarrow> string" where
  "string_of_nat n =
     (if n < 10 then [digit_char n]
      else string_of_nat (n div 10) @ [digit_char (n mod 10)])"

declare string_of_nat.simps [simp del]

definition string_of_int :: "int \<Rightarrow> string" where
  "string_of_int i = (if i < 0 then CHR ''-'' # string_of_nat (nat (- i)) else string_of_nat (nat i))"

section \<open>Liveness Prober: checkWebsiteStatus\<close>

text \<open>The value a rejected \<^verbatim>\<open>fetch\<close> throws: its \<^verbatim>\<open>name\<close> and its \<^verbatim>\<open>message\<close>, if any.\<close>

record js_error =
  err_name :: string
  err_message :: "string option"

text \<open>
  \<^verbatim>\<open>fetch\<close> either resolves to a response, given here by its HTTP status, or rejects.
  When the 30 second timer calls \<^verbatim>\<open>controller.abort()\<close>, fetch rejects with an error
  named \<^verbatim>\<open>AbortError\<close>. \<^verbatim>\<open>response.ok\<close> is true for a status in the range 200 to 299.
\<close>

datatype fetch_outcome = Resolved nat | Rejected js_error

definition response_ok :: "nat \<Rightarrow> bool" where
  "response_ok code = (200 \<le> code \<and> code \<le> 299)"

record probe_world =
  fetch :: "string \<Rightarrow> fetch_outcome"
  start_clock :: int
  settle_clock :: int

definition checkWebsiteStatus :: "probe_world \<Rightarrow> string \<Rightarrow> status_check" where
  "checkWebsiteStatus w url =
     (let startTime = start_clock w in
      case fetch w url of
        Resolved code \<Rightarrow>
          \<lparr>status_sc = (if response_ok code then Up else Down),
           ssl_valid_sc = (startsWith url ''https://'' \<and> response_ok code),
           response_time_sc = Some (settle_clock w - startTime),
           error_message_sc = None\<rparr>
      | Rejected err \<Rightarrow>
          \<lparr>status_sc = Error,
           ssl_valid_sc = False,
           response_time_sc = Some (settle_clock w - startTime),
           error_message_sc = Some
             (if err_name err = ''AbortError'' then ''Request timeout''
              else (case err_message err of
                      None \<Rightarrow> ''Connection failed''
                    | Some m \<Rightarrow> if m \<noteq> [] then substring0 m 100 else ''Connection failed''))\<rparr>)"

section \<open>Certificate Inspector: getSSLCertificateInfo\<close>

text \<open>
  \<^verbatim>\<open>new URL(url)\<close> throws or gives the host name and the port (\<^verbatim>\<open>''\<close> when the URL
  names none: \<open>None\<close>). The socket opened by \<^verbatim>\<open>tls.connect\<close> ends in the first of three
  events: the handshake completes (with the peer certificate, if there is one), the socket
  errors, or it is idle for 5 seconds. A \<^verbatim>\<open>Date\<close> is its time value in milliseconds;
  \<open>None\<close> is the invalid date.
\<close>

record url_parts =
  hostname :: string
  port :: "nat option"

record peer_certificate =
  valid_from :: "string option"
  valid_to :: "string option"

datatype tls_event = Secure_connect "peer_certificate option" | Socket_error | Socket_timeout

record cert_world =
  url_parse :: "string \<Rightarrow> url_parts option"
  tls_connect :: "nat \<Rightarrow> string \<Rightarrow> tls_event"
  now :: int
  date_parse :: "string \<Rightarrow> int option"
  toISOString :: "int \<Rightarrow> string"

definition no_ssl :: ssl_info where
  "no_ssl = \<lparr>ssl_valid_si = False, ssl_expires_si = None,
             ssl_days_remaining_si = None, ssl_issued_date_si = None\<rparr>"

definition ms_per_day :: int where
  "ms_per_day = 1000 * 60 * 60 * 24"

text \<open>
  The callback of \<^verbatim>\<open>tls.connect\<close> (lines 44 to 67). A comparison with an invalid date
  is false and \<^verbatim>\<open>toISOString\<close> of an invalid date throws a RangeError; the throw
  happens inside the socket's event callback, after \<^verbatim>\<open>socket.destroy()\<close> and before
  \<^verbatim>\<open>resolve\<close>, so the promise is never settled. Time values are whole milliseconds and
  the quotient by one day is taken exactly.
\<close>

definition on_secure_connect :: "cert_world \<Rightarrow> peer_certificate option \<Rightarrow> ssl_info completion" where
  "on_secure_connect w c =
     (case c of
        None \<Rightarrow> Returns no_ssl
      | Some cert \<Rightarrow>
          if \<not> truthy (valid_from cert) \<or> \<not> truthy (valid_to cert) then Returns no_ssl
          else
            (case (Option.bind (valid_from cert) (date_parse w),
                   Option.bind (valid_to cert) (date_parse w)) of
               (Some validFrom, Some validTo) \<Rightarrow>
                 (let isValid = (now w \<ge> validFrom \<and> now w \<le> validTo);
                      daysRemaining = (validTo - now w) div ms_per_day
                  in Returns
                       \<lparr>ssl_valid_si = isValid,
                        ssl_expires_si = Some (split_T_first (toISOString w validTo)),
                        ssl_days_remaining_si = Some daysRemaining,
                        ssl_issued_date_si = Some (split_T_first (toISOString w validFrom))\<rparr>)
             | _ \<Rightarrow> Never))"

definition getSSLCertificateInfo :: "cert_world \<Rightarrow> string \<Rightarrow> ssl_info completion" where
  "getSSLCertificateInfo w url =
     (if \<not> startsWith url ''https://'' then Returns no_ssl
      else
        (case url_parse w url of
           None \<Rightarrow> Returns no_ssl
         | Some urlObj \<Rightarrow>
             (let port = (case port urlObj of Some p \<Rightarrow> p | None \<Rightarrow> 443) in
              case tls_connect w port (hostname urlObj) of
                Secure_connect c \<Rightarrow> on_secure_connect w c
              | Socket_error \<Rightarrow> Returns no_ssl
              | Socket_timeout \<Rightarrow> Returns no_ssl)))"

section \<open>Page Capturer: takeScreenshot\<close>

text \<open>
  Each awaited browser call either succeeds or throws. \<^verbatim>\<open>capture_clock\<close> is
  \<^verbatim>\<open>Date.now()\<close> when the file name is built.
\<close>

record capture_world =
  launch_ok :: bool
  newPage_ok :: bool
  setViewportSize_ok :: bool
  goto_ok :: "string \<Rightarrow> bool"
  waitForTimeout_ok :: bool
  capture_clock :: int
  screenshot_ok :: bool
  close_ok :: bool

text \<open>One run of the capturer: how it ended and what happened to the browser.\<close>

record capture_run =
  outcome :: "string option completion"
  browser_launched :: bool
  close_called :: bool

definition fileName :: "int \<Rightarrow> int \<Rightarrow> string" where
  "fileName ident t = string_of_int ident @ ''_'' @ string_of_int t @ ''.png''"

text \<open>
  The \<^verbatim>\<open>try\<close> block (lines 134 to 173): whether the variable \<^verbatim>\<open>browser\<close> was assigned,
  and how the block ended.
\<close>

definition try_block :: "capture_world \<Rightarrow> string \<Rightarrow> int \<Rightarrow> bool \<times> string completion" where
  "try_block w url ident =
     (if \<not> launch_ok w then (False, Throws)
      else if \<not> newPage_ok w then (True, Throws)
      else if \<not> setViewportSize_ok w then (True, Throws)
      else if \<not> goto_ok w url then (True, Throws)
      else if \<not> waitForTimeout_ok w then (True, Throws)
      else if \<not> screenshot_ok w then (True, Throws)
      else (True, Returns (''/screenshots/'' @ fileName ident (capture_clock w))))"

text \<open>The \<^verbatim>\<open>catch\<close> block (lines 174 to 176) turns a throw into \<^verbatim>\<open>null\<close>.\<close>

definition catch_block :: "string completion \<Rightarrow> string option completion" where
  "catch_block c = (case c of Returns p \<Rightarrow> Returns (Some p) | Throws \<Rightarrow> Returns None | Never \<Rightarrow> Never)"

text \<open>
  The \<^verbatim>\<open>finally\<close> block (lines 177 to 181) awaits \<^verbatim>\<open>browser.close()\<close> when \<^verbatim>\<open>browser\<close>
  is set; a throw of \<^verbatim>\<open>close\<close> replaces the pending return.
\<close>

definition takeScreenshot :: "capture_world \<Rightarrow> string \<Rightarrow> int \<Rightarrow> capture_run" where
  "takeScreenshot w url ident =
     (let (browser, body) = try_block w url ident;
          pending = catch_block body
      in if browser
         then \<lparr>outcome = (if close_ok w then pending else Throws),
               browser_launched = True, close_called = True\<rparr>
         else \<lparr>outcome = pending, browser_launched = False, close_called = False\<rparr>)"

section \<open>Batch handler: POST\<close>

text \<open>
  The value the handler destructures as \<^verbatim>\<open>websites\<close> from the parsed body. An array
  holds records of the declared element type \<^verbatim>\<open>Website\<close>.
\<close>

datatype js_value =
    JUndefined | JNull | JBool bool | JNum int | JStr string | JObj | JArr "Website list"

text \<open>
  \<^verbatim>\<open>await request.json()\<close> rejects when the body is not JSON; the body \<^verbatim>\<open>null\<close> parses,
  and destructuring it throws a TypeError; from every other body the destructuring reads
  the property \<^verbatim>\<open>websites\<close> (\<^verbatim>\<open>undefined\<close> when there is none).
\<close>

datatype request_body = Json_reject | Json_null | Json_body js_value

definition falsy :: "js_value \<Rightarrow> bool" where
  "falsy v = (case v of
      JUndefined \<Rightarrow> True | JNull \<Rightarrow> True | JBool b \<Rightarrow> \<not> b | JNum n \<Rightarrow> n = 0
    | JStr s \<Rightarrow> s = [] | JObj \<Rightarrow> False | JArr ws \<Rightarrow> False)"

definition isArray :: "js_value \<Rightarrow> bool" where
  "isArray v = (case v of JArr ws \<Rightarrow> True | _ \<Rightarrow> False)"

definition elements :: "js_value \<Rightarrow> Website list" where
  "elements v = (case v of JArr ws \<Rightarrow> ws | _ \<Rightarrow> [])"

text \<open>The response: the result list (status 200), or an error text with its status.\<close>

datatype response = Json_results "ScreenshotResult list" | Json_error string nat | No_response

text \<open>The calls to the three checks, in the order they are made.\<close>

datatype effect = Probe string | Inspect string | Capture string int

text \<open>What the world does while one website is processed.\<close>

record site_world =
  probe :: probe_world
  cert :: cert_world
  capture :: capture_world

text \<open>\<^verbatim>\<open>x || undefined\<close> on the capturer's answer.\<close>

definition or_undefined :: "string option \<Rightarrow> string option" where
  "or_undefined v = (if truthy v then v else None)"

text \<open>Lines 211 to 235: the merge of the three answers into one result.\<close>

definition build_result ::
  "Website \<Rightarrow> status_check \<Rightarrow> ssl_info \<Rightarrow> string option \<Rightarrow> ScreenshotResult" where
  "build_result website statusCheck sslInfo shot =
     (let finalStatus =
            (if truthy shot \<and> status_sc statusCheck \<noteq> Up then Up else status_sc statusCheck);
          finalSSLValid =
            (if \<not> ssl_valid_si sslInfo \<and> truthy shot \<and> startsWith (url_w website) ''https://''
             then True else ssl_valid_si sslInfo)
      in \<lparr>id_res = id_w website,
          url_res = url_w website,
          screenshot_path = shot,
          status = finalStatus,
          ssl_valid = finalSSLValid,
          ssl_expires = ssl_expires_si sslInfo,
          ssl_days_remaining = ssl_days_remaining_si sslInfo,
          ssl_issued_date = ssl_issued_date_si sslInfo,
          response_time = response_time_sc statusCheck,
          error_message = (if truthy shot then None else error_message_sc statusCheck)\<rparr>)"

text \<open>
  One iteration of the loop (lines 199 to 237): the three checks are awaited one after
  the other; a check that throws or never settles ends the iteration there.
\<close>

definition process_website :: "site_world \<Rightarrow> Website \<Rightarrow> ScreenshotResult completion \<times> effect list" where
  "process_website sw website =
     (let url = url_w website;
          statusCheck = checkWebsiteStatus (probe sw) url
      in case getSSLCertificateInfo (cert sw) url of
           Never \<Rightarrow> (Never, [Probe url, Inspect url])
         | Throws \<Rightarrow> (Throws, [Probe url, Inspect url])
         | Returns sslInfo \<Rightarrow>
             (case outcome (takeScreenshot (capture sw) url (id_w website)) of
                Never \<Rightarrow> (Never, [Probe url, Inspect url, Capture url (id_w website)])
              | Throws \<Rightarrow> (Throws, [Probe url, Inspect url, Capture url (id_w website)])
              | Returns shot \<Rightarrow>
                  (Returns (build_result website statusCheck sslInfo (or_undefined shot)),
                   [Probe url, Inspect url, Capture url (id_w website)])))"

text \<open>
  The \<^verbatim>\<open>for ... of\<close> loop: website number \<open>i\<close> of the request is processed in the world
  \<open>W i\<close>, and its result is pushed at the end of \<^verbatim>\<open>results\<close>.
\<close>

fun for_websites ::
  "(nat \<Rightarrow> site_world) \<Rightarrow> nat \<Rightarrow> Website list \<Rightarrow> ScreenshotResult list \<Rightarrow> effect list
     \<Rightarrow> ScreenshotResult list completion \<times> effect list" where
  "for_websites W i [] results trace = (Returns results, trace)"
| "for_websites W i (website # rest) results trace =
     (case process_website (W i) website of
        (Returns result, es) \<Rightarrow> for_websites W (Suc i) rest (results @ [result]) (trace @ es)
      | (Throws, es) \<Rightarrow> (Throws, trace @ es)
      | (Never, es) \<Rightarrow> (Never, trace @ es))"

text \<open>
  The handler. Whatever is thrown inside its \<^verbatim>\<open>try\<close> block is answered with status 500;
  a check that never settles leaves the request unanswered.
\<close>

definition POST :: "(nat \<Rightarrow> site_world) \<Rightarrow> request_body \<Rightarrow> response \<times> effect list" where
  "POST W request =
     (case request of
        Json_reject \<Rightarrow> (Json_error ''Internal server error'' 500, [])
      | Json_null \<Rightarrow> (Json_error ''Internal server error'' 500, [])
      | Json_body websites \<Rightarrow>
          if falsy websites \<or> \<not> isArray websites \<or> length (elements websites) = 0
          then (Json_error ''No websites provided'' 400, [])
          else
            (case for_websites W 0 (elements websites) [] [] of
               (Returns results, trace) \<Rightarrow> (Json_results results, trace)
             | (Throws, trace) \<Rightarrow> (Json_error ''Internal server error'' 500, trace)
             | (Never, trace) \<Rightarrow> (No_response, trace)))"

section \<open>Specification vocabulary\<close>

text \<open>
  The spec's "parseable certificate": the URL has the encrypted scheme's prefix,
  \<^verbatim>\<open>new URL\<close> accepts it, the handshake completes with a certificate, and the
  certificate's \<^verbatim>\<open>valid_from\<close> and \<^verbatim>\<open>valid_to\<close> are non-empty texts that parse as dates.
  The value is the validity window (validFrom, validTo) in milliseconds.
\<close>

definition certificate_window :: "cert_world \<Rightarrow> peer_certificate option \<Rightarrow> (int \<times> int) option" where
  "certificate_window w c =
     (case c of
        None \<Rightarrow> None
      | Some crt \<Rightarrow>
          (case (valid_from crt, valid_to crt) of
             (Some vf, Some vt) \<Rightarrow>
               if vf = [] \<or> vt = [] then None
               else
                 (case (date_parse w vf, date_parse w vt) of
                    (Some validFrom, Some validTo) \<Rightarrow> Some (validFrom, validTo)
                  | _ \<Rightarrow> None)
           | _ \<Rightarrow> None))"

definition parseable_certificate :: "cert_world \<Rightarrow> string \<Rightarrow> (int \<times> int) option" where
  "parseable_certificate w url =
     (if \<not> startsWith url ''https://'' then None
      else
        (case url_parse w url of
           None \<Rightarrow> None
         | Some urlObj \<Rightarrow>
             (case tls_connect w (case port urlObj of Some p \<Rightarrow> p | None \<Rightarrow> 443) (hostname urlObj) of
                Secure_connect c \<Rightarrow> certificate_window w c
              | _ \<Rightarrow> None)))"


text \<open>The three checks of website number \<open>k\<close> of a request.\<close>

abbreviation prober :: "(nat \<Rightarrow> site_world) \<Rightarrow> Website list \<Rightarrow> nat \<Rightarrow> status_check" where
  "prober W ws k \<equiv> checkWebsiteStatus (probe (W k)) (url_w (ws ! k))"

abbreviation inspector :: "(nat \<Rightarrow> site_world) \<Rightarrow> Website list \<Rightarrow> nat \<Rightarrow> ssl_info completion" where
  "inspector W ws k \<equiv> getSSLCertificateInfo (cert (W k)) (url_w (ws ! k))"

abbreviation capturer :: "(nat \<Rightarrow> site_world) \<Rightarrow> Website list \<Rightarrow> nat \<Rightarrow> capture_run" where
  "capturer W ws k \<equiv> takeScreenshot (capture (W k)) (url_w (ws ! k)) (id_w (ws ! k))"

section \<open>Example worlds\<close>

text \<open>The probe is answered with status 200, with status 403, or fails in transport.\<close>

definition probe_up :: probe_world where
  "probe_up = \<lparr>fetch = (\<lambda>url. Resolved 200), start_clock = 1000, settle_clock = 1250\<rparr>"

definition probe_forbidden :: probe_world where
  "probe_forbidden = \<lparr>fetch = (\<lambda>url. Resolved 403), start_clock = 1000, settle_clock = 1250\<rparr>"

definition probe_unreachable :: probe_world where
  "probe_unreachable =
     \<lparr>fetch = (\<lambda>url. Rejected \<lparr>err_name = ''TypeError'', err_message = Some ''fetch failed''\<rparr>),
      start_clock = 1000, settle_clock = 1040\<rparr>"

definition probe_timeout :: probe_world where
  "probe_timeout =
     \<lparr>fetch = (\<lambda>url. Rejected \<lparr>err_name = ''AbortError'',
                                 err_message = Some ''This operation was aborted''\<rparr>),
      start_clock = 1000, settle_clock = 31000\<rparr>"

definition probe_silent :: probe_world where
  "probe_silent =
     \<lparr>fetch = (\<lambda>url. Rejected \<lparr>err_name = ''Error'', err_message = Some []\<rparr>),
      start_clock = 1000, settle_clock = 1040\<rparr>"

text \<open>
  The clock reads 2026-11-02T00:00:00Z. The server's certificate is valid during 2026,
  or was valid during 2025, or the socket errors.
\<close>

definition cert_valid :: cert_world where
  "cert_valid =
     \<lparr>url_parse = (\<lambda>url. Some \<lparr>hostname = ''example.com'', port = None\<rparr>),
      tls_connect = (\<lambda>p h. Secure_connect
         (Some \<lparr>valid_from = Some ''Jan  1 00:00:00 2026 GMT'',
                valid_to = Some ''Jan  1 00:00:00 2027 GMT''\<rparr>)),
      now = 1793577600000,
      date_parse = (\<lambda>s. if s = ''Jan  1 00:00:00 2026 GMT'' then Some 1767225600000
                         else if s = ''Jan  1 00:00:00 2027 GMT'' then Some 1798761600000
                         else None),
      toISOString = (\<lambda>t. if t = 1767225600000 then ''2026-01-01T00:00:00.000Z''
                          else ''2027-01-01T00:00:00.000Z'')\<rparr>"

definition cert_expired :: cert_world where
  "cert_expired =
     \<lparr>url_parse = (\<lambda>url. Some \<lparr>hostname = ''example.com'', port = None\<rparr>),
      tls_connect = (\<lambda>p h. Secure_connect
         (Some \<lparr>valid_from = Some ''Jan  1 00:00:00 2025 GMT'',
                valid_to = Some ''Jan  1 00:00:00 2026 GMT''\<rparr>)),
      now = 1793577600000,
      date_parse = (\<lambda>s. if s = ''Jan  1 00:00:00 2025 GMT'' then Some 1735689600000
                         else if s = ''Jan  1 00:00:00 2026 GMT'' then Some 1767225600000
                         else None),
      toISOString = (\<lambda>t. if t = 1735689600000 then ''2025-01-01T00:00:00.000Z''
                          else ''2026-01-01T00:00:00.000Z'')\<rparr>"

definition cert_refused :: cert_world where
  "cert_refused =
     \<lparr>url_parse = (\<lambda>url. Some \<lparr>hostname = ''nonexistent.invalid'', port = None\<rparr>),
      tls_connect = (\<lambda>p h. Socket_error),
      now = 1793577600000,
      date_parse = (\<lambda>s. None),
      toISOString = (\<lambda>t. [])\<rparr>"

text \<open>The capture succeeds, or the navigation times out, or only the teardown fails.\<close>

definition capture_ok :: capture_world where
  "capture_ok =
     \<lparr>launch_ok = True, newPage_ok = True, setViewportSize_ok = True,
      goto_ok = (\<lambda>url. True), waitForTimeout_ok = True,
      capture_clock = 1793577601000, screenshot_ok = True, close_ok = True\<rparr>"

definition capture_nav_timeout :: capture_world where
  "capture_nav_timeout =
     \<lparr>launch_ok = True, newPage_ok = True, setViewportSize_ok = True,
      goto_ok = (\<lambda>url. False), waitForTimeout_ok = True,
      capture_clock = 1793577601000, screenshot_ok = True, close_ok = True\<rparr>"

definition capture_close_fails :: capture_world where
  "capture_close_fails =
     \<lparr>launch_ok = True, newPage_ok = True, setViewportSize_ok = True,
      goto_ok = (\<lambda>url. True), waitForTimeout_ok = True,
      capture_clock = 1793577601000, screenshot_ok = True, close_ok = False\<rparr>"

definition site_a :: Website where
  "site_a = \<lparr>id_w = 1, url_w = ''https://example.com''\<rparr>"

definition site_b :: Website where
  "site_b = \<lparr>id_w = 2, url_w = ''https://nonexistent.invalid''\<rparr>"

definition site_c :: Website where
  "site_c = \<lparr>id_w = 3, url_w = ''http://plain.example''\<rparr>"

text \<open>
  A request for three sites: the first answers the probe with 403, has a valid
  certificate and renders; the second is unreachable for all three checks; the third is
  served without encryption, answers the probe with 200 and does not render in time.
\<close>

definition world_batch :: "nat \<Rightarrow> site_world" where
  "world_batch k =
     (if k = 0 then \<lparr>probe = probe_forbidden, cert = cert_valid, capture = capture_ok\<rparr>
      else if k = 1
      then \<lparr>probe = probe_unreachable, cert = cert_refused, capture = capture_nav_timeout\<rparr>
      else \<lparr>probe = probe_up, cert = cert_refused, capture = capture_nav_timeout\<rparr>)"

text \<open>What the handler answers for the three sites, and the calls it makes.\<close>

definition result_a :: ScreenshotResult where
  "result_a =
     \<lparr>id_res = 1, url_res = ''https://example.com'',
      screenshot_path = Some ''/screenshots/1_1793577601000.png'',
      status = Up, ssl_valid = True,
      ssl_expires = Some ''2027-01-01'', ssl_days_remaining = Some 60,
      ssl_issued_date = Some ''2026-01-01'',
      response_time = Some 250, error_message = None\<rparr>"

definition result_b :: ScreenshotResult where
  "result_b =
     \<lparr>id_res = 2, url_res = ''https://nonexistent.invalid'',
      screenshot_path = None,
      status = Error, ssl_valid = False,
      ssl_expires = None, ssl_days_remaining = None, ssl_issued_date = None,
      response_time = Some 40, error_message = Some ''fetch failed''\<rparr>"

definition result_c :: ScreenshotResult where
  "result_c =
     \<lparr>id_res = 3, url_res = ''http://plain.example'',
      screenshot_path = None,
      status = Up, ssl_valid = False,
      ssl_expires = None, ssl_days_remaining = None, ssl_issued_date = None,
      response_time = Some 250, error_message = None\<rparr>"

definition trace_batch :: "effect list" where
  "trace_batch =
     [Probe ''https://example.com'', Inspect ''https://example.com'',
      Capture ''https://example.com'' 1,
      Probe ''https://nonexistent.invalid'', Inspect ''https://nonexistent.invalid'',
      Capture ''https://nonexistent.invalid'' 2,
      Probe ''http://plain.example'', Inspect ''http://plain.example'',
      Capture ''http://plain.example'' 3]"

text \<open>A site whose certificate expired in the inspector's eyes, and which renders.\<close>

definition world_expired :: "nat \<Rightarrow> site_world" where
  "world_expired k = \<lparr>probe = probe_up, cert = cert_expired, capture = capture_ok\<rparr>"

definition info_expired :: ssl_info where
  "info_expired =
     \<lparr>ssl_valid_si = False, ssl_expires_si = Some ''2026-01-01'',
      ssl_days_remaining_si = Some (- 305), ssl_issued_date_si = Some ''2025-01-01''\<rparr>"

definition result_expired :: ScreenshotResult where
  "result_expired =
     \<lparr>id_res = 1, url_res = ''https://example.com'',
      screenshot_path = Some ''/screenshots/1_1793577601000.png'',
      status = Up, ssl_valid = True,
      ssl_expires = Some ''2026-01-01'', ssl_days_remaining = Some (- 305),
      ssl_issued_date = Some ''2025-01-01'',
      response_time = Some 250, error_message = None\<rparr>"

text \<open>A site whose certificate carries an expiry text that does not parse as a date.\<close>

definition cert_bad_dates :: cert_world where
  "cert_bad_dates =
     \<lparr>url_parse = (\<lambda>url. Some \<lparr>hostname = ''example.com'', port = None\<rparr>),
      tls_connect = (\<lambda>p h. Secure_connect
         (Some \<lparr>valid_from = Some ''Jan  1 00:00:00 2026 GMT'',
                valid_to = Some ''Bad time value''\<rparr>)),
      now = 1793577600000,
      date_parse = (\<lambda>s. if s = ''Jan  1 00:00:00 2026 GMT'' then Some 1767225600000 else None),
      toISOString = (\<lambda>t. ''2026-01-01T00:00:00.000Z'')\<rparr>"

definition world_bad_dates :: "nat \<Rightarrow> site_world" where
  "world_bad_dates k = \<lparr>probe = probe_up, cert = cert_bad_dates, capture = capture_ok\<rparr>"

text \<open>A site for which only the browser's teardown fails.\<close>

definition world_close_fails :: "nat \<Rightarrow> site_world" where
  "world_close_fails k = \<lparr>probe = probe_up, cert = cert_valid, capture = capture_close_fails\<rparr>"

section \<open>Evaluation and the loop\<close>

lemmas eval_defs =
  POST_def for_websites.simps process_website_def build_result_def or_undefined_def
  takeScreenshot_def try_block_def catch_block_def fileName_def string_of_int_def
  string_of_nat.simps digit_char_def getSSLCertificateInfo_def on_secure_connect_def
  no_ssl_def ms_per_day_def split_T_first_def checkWebsiteStatus_def response_ok_def
  substring0_def startsWith_def truthy_def falsy_def isArray_def elements_def Let_def

lemmas world_defs =
  probe_up_def probe_forbidden_def probe_unreachable_def probe_timeout_def probe_silent_def
  cert_valid_def cert_expired_def cert_refused_def
  capture_ok_def capture_nav_timeout_def capture_close_fails_def
  site_a_def site_b_def site_c_def world_batch_def world_expired_def world_close_fails_def
  result_a_def result_b_def result_c_def trace_batch_def info_expired_def result_expired_def
  cert_bad_dates_def world_bad_dates_def

text \<open>A reference returned by the capturer is never the empty text, so it is truthy.\<close>

lemma takeScreenshot_Some_nonempty:
  "outcome (takeScreenshot w url i) = Returns (Some p) \<Longrightarrow> p \<noteq> []"
  by (auto simp: takeScreenshot_def try_block_def catch_block_def split: if_splits)

lemma takeScreenshot_truthy:
  "outcome (takeScreenshot w url i) = Returns shot \<Longrightarrow>
     truthy shot = (shot \<noteq> None) \<and> or_undefined shot = shot"
  by (cases shot) (auto simp: truthy_def or_undefined_def dest: takeScreenshot_Some_nonempty)

text \<open>An iteration that yields a result has merged the answers of the three checks.\<close>

lemma process_website_Returns:
  assumes "fst (process_website sw website) = Returns r"
  shows "\<exists>info shot.
           getSSLCertificateInfo (cert sw) (url_w website) = Returns info
         \<and> outcome (takeScreenshot (capture sw) (url_w website) (id_w website)) = Returns shot
         \<and> r = build_result website (checkWebsiteStatus (probe sw) (url_w website)) info shot"
  using assms
  by (auto simp: process_website_def Let_def takeScreenshot_truthy split: completion.splits)

text \<open>
  The loop, started at index \<open>i\<close> with \<open>acc\<close> already pushed: when it returns, it has
  pushed one result per website, in order.
\<close>

lemma for_websites_Returns:
  "for_websites W i ws acc tr = (Returns rs, tr') \<Longrightarrow>
     \<exists>new. rs = acc @ new \<and> length new = length ws
         \<and> (\<forall>k < length ws. fst (process_website (W (i + k)) (ws ! k)) = Returns (new ! k))"
proof (induction ws arbitrary: i acc tr)
  case Nil
  then show ?case by simp
next
  case (Cons website rest)
  obtain c es where pw: "process_website (W i) website = (c, es)"
    by (cases "process_website (W i) website")
  from Cons.prems pw obtain r where c: "c = Returns r"
    by (cases c) auto
  from Cons.prems pw c
  have "for_websites W (Suc i) rest (acc @ [r]) (tr @ es) = (Returns rs, tr')"
    by simp
  from Cons.IH [OF this] obtain new where
    new: "rs = (acc @ [r]) @ new" "length new = length rest"
      "\<forall>k < length rest. fst (process_website (W (Suc i + k)) (rest ! k)) = Returns (new ! k)"
    by blast
  have "\<forall>k < length (website # rest).
          fst (process_website (W (i + k)) ((website # rest) ! k)) = Returns ((r # new) ! k)"
  proof (intro allI impI)
    fix k assume "k < length (website # rest)"
    then show "fst (process_website (W (i + k)) ((website # rest) ! k)) = Returns ((r # new) ! k)"
      using new(3) pw c by (cases k) auto
  qed
  with new show ?case
    by (intro exI [of _ "r # new"]) simp
qed

text \<open>When every iteration yields a result, the loop returns.\<close>

lemma for_websites_total:
  "(\<forall>k < length ws. \<exists>r. fst (process_website (W (i + k)) (ws ! k)) = Returns r) \<Longrightarrow>
     \<exists>rs tr'. for_websites W i ws acc tr = (Returns rs, tr')"
proof (induction ws arbitrary: i acc tr)
  case Nil
  then show ?case by simp
next
  case (Cons website rest)
  from Cons.prems have "\<exists>r. fst (process_website (W (i + 0)) ((website # rest) ! 0)) = Returns r"
    by blast
  then obtain r es where pw: "process_website (W i) website = (Returns r, es)"
    by (cases "process_website (W i) website") auto
  have "\<forall>k < length rest. \<exists>r. fst (process_website (W (Suc i + k)) (rest ! k)) = Returns r"
  proof (intro allI impI)
    fix k assume "k < length rest"
    then have "Suc k < length (website # rest)" by simp
    from Cons.prems [rule_format, OF this]
    show "\<exists>r. fst (process_website (W (Suc i + k)) (rest ! k)) = Returns r" by simp
  qed
  from Cons.IH [OF this] pw show ?case by simp
qed

lemma POST_results:
  assumes "POST W (Json_body (JArr ws)) = (Json_results rs, tr)"
  shows "length rs = length ws"
    and "k < length ws \<Longrightarrow> fst (process_website (W k) (ws ! k)) = Returns (rs ! k)"
proof -
  from assms have "for_websites W 0 ws [] [] = (Returns rs, tr)"
    by (auto simp: POST_def elements_def falsy_def isArray_def
             split: if_splits prod.splits completion.splits)
  from for_websites_Returns [OF this] obtain new where
    "rs = [] @ new" "length new = length ws"
    "\<forall>k < length ws. fst (process_website (W (0 + k)) (ws ! k)) = Returns (new ! k)"
    by blast
  then show "length rs = length ws"
    and "k < length ws \<Longrightarrow> fst (process_website (W k) (ws ! k)) = Returns (rs ! k)"
    by auto
qed

text \<open>The result of website \<open>k\<close> is the merge of its three checks' answers.\<close>

lemma POST_result_nth:
  assumes "POST W (Json_body (JArr ws)) = (Json_results rs, tr)" and "k < length ws"
  shows "\<exists>info shot. inspector W ws k = Returns info
         \<and> outcome (capturer W ws k) = Returns shot
         \<and> truthy shot = (shot \<noteq> None)
         \<and> rs ! k = build_result (ws ! k) (prober W ws k) info shot"
proof -
  from POST_results(2) [OF assms] obtain info shot where
    "inspector W ws k = Returns info" "outcome (capturer W ws k) = Returns shot"
    "rs ! k = build_result (ws ! k) (prober W ws k) info shot"
    using process_website_Returns by blast
  then show ?thesis using takeScreenshot_truthy by blast
qed

text \<open>The requests of the example sites, run to their end.\<close>

lemma run_world_batch:
  "POST world_batch (Json_body (JArr [site_a, site_b, site_c])) =
     (Json_results [result_a, result_b, result_c], trace_batch)"
  by (simp add: eval_defs world_defs)

lemma run_world_expired:
  "POST world_expired (Json_body (JArr [site_a])) =
     (Json_results [result_expired],
      [Probe ''https://example.com'', Inspect ''https://example.com'',
       Capture ''https://example.com'' 1])"
  by (simp add: eval_defs world_defs)


lemma inspect_expired:
  "getSSLCertificateInfo cert_expired ''https://example.com'' = Returns info_expired"
  by (simp add: eval_defs world_defs)

lemma inspect_valid:
  "getSSLCertificateInfo cert_valid ''https://example.com'' = Returns
     \<lparr>ssl_valid_si = True, ssl_expires_si = Some ''2027-01-01'',
      ssl_days_remaining_si = Some 60, ssl_issued_date_si = Some ''2026-01-01''\<rparr>"
  by (simp add: eval_defs world_defs)

lemma window_valid:
  "parseable_certificate cert_valid ''https://example.com'' = Some (1767225600000, 1798761600000)"
  by (simp add: parseable_certificate_def certificate_window_def startsWith_def cert_valid_def)

lemma window_expired:
  "parseable_certificate cert_expired ''https://example.com'' = Some (1735689600000, 1767225600000)"
  by (simp add: parseable_certificate_def certificate_window_def startsWith_def cert_expired_def)

lemma window_refused:
  "parseable_certificate cert_refused url = None"
  by (simp add: parseable_certificate_def cert_refused_def)


text \<open>
  The inspector against the vocabulary: with a parseable certificate it returns the
  window's verdict, the two dates and the days remaining; without one, whatever it
  returns carries no certificate field.
\<close>

lemma on_secure_connect_window:
  assumes "certificate_window w c = Some (validFrom, validTo)"
  shows "on_secure_connect w c = Returns
           \<lparr>ssl_valid_si = (validFrom \<le> now w \<and> now w \<le> validTo),
            ssl_expires_si = Some (split_T_first (toISOString w validTo)),
            ssl_days_remaining_si = Some ((validTo - now w) div ms_per_day),
            ssl_issued_date_si = Some (split_T_first (toISOString w validFrom))\<rparr>"
proof -
  from assms obtain crt where c: "c = Some crt"
    by (cases c) (simp_all add: certificate_window_def)
  from assms c obtain vf where vf: "valid_from crt = Some vf"
    by (cases "valid_from crt") (simp_all add: certificate_window_def)
  from assms c vf obtain vt where vt: "valid_to crt = Some vt"
    by (cases "valid_to crt") (simp_all add: certificate_window_def)
  from assms c vf vt have ne: "vf \<noteq> []" "vt \<noteq> []"
    by (auto simp: certificate_window_def split: if_splits)
  from assms c vf vt ne have "date_parse w vf = Some validFrom \<and> date_parse w vt = Some validTo"
    by (cases "date_parse w vf"; cases "date_parse w vt") (simp_all add: certificate_window_def)
  with c vf vt ne show ?thesis
    by (simp add: on_secure_connect_def truthy_def Let_def)
qed

lemma on_secure_connect_no_window:
  assumes "certificate_window w c = None" and "on_secure_connect w c = Returns info"
  shows "info = no_ssl"
proof (cases c)
  case None
  with assms(2) show ?thesis by (simp add: on_secure_connect_def)
next
  case (Some crt)
  show ?thesis
  proof (cases "truthy (valid_from crt) \<and> truthy (valid_to crt)")
    case False
    with assms(2) Some show ?thesis by (auto simp: on_secure_connect_def)
  next
    case True
    then obtain vf vt where v: "valid_from crt = Some vf" "vf \<noteq> []" "valid_to crt = Some vt" "vt \<noteq> []"
      by (cases "valid_from crt"; cases "valid_to crt") (simp_all add: truthy_def)
    with assms(1) Some have "date_parse w vf = None \<or> date_parse w vt = None"
      by (cases "date_parse w vf"; cases "date_parse w vt") (simp_all add: certificate_window_def)
    with v Some have "on_secure_connect w c = Never"
      by (cases "date_parse w vf"; cases "date_parse w vt")
         (simp_all add: on_secure_connect_def truthy_def)
    with assms(2) show ?thesis by simp
  qed
qed

lemma getSSLCertificateInfo_parseable:
  assumes "parseable_certificate w url = Some (validFrom, validTo)"
  shows "getSSLCertificateInfo w url = Returns
           \<lparr>ssl_valid_si = (validFrom \<le> now w \<and> now w \<le> validTo),
            ssl_expires_si = Some (split_T_first (toISOString w validTo)),
            ssl_days_remaining_si = Some ((validTo - now w) div ms_per_day),
            ssl_issued_date_si = Some (split_T_first (toISOString w validFrom))\<rparr>"
proof -
  from assms have https: "startsWith url ''https://''"
    by (simp add: parseable_certificate_def split: if_splits)
  from assms https obtain urlObj where u: "url_parse w url = Some urlObj"
    by (cases "url_parse w url") (simp_all add: parseable_certificate_def)
  let ?ev = "tls_connect w (case port urlObj of Some p \<Rightarrow> p | None \<Rightarrow> 443) (hostname urlObj)"
  from assms https u obtain c where ev: "?ev = Secure_connect c"
    and win: "certificate_window w c = Some (validFrom, validTo)"
    by (cases ?ev) (simp_all add: parseable_certificate_def)
  from https u ev have "getSSLCertificateInfo w url = on_secure_connect w c"
    by (simp add: getSSLCertificateInfo_def Let_def)
  with on_secure_connect_window [OF win] show ?thesis by simp
qed

lemma getSSLCertificateInfo_unparseable:
  assumes "parseable_certificate w url = None"
    and "getSSLCertificateInfo w url = Returns info"
  shows "info = no_ssl"
proof (cases "startsWith url ''https://''")
  case False
  with assms(2) show ?thesis by (simp add: getSSLCertificateInfo_def)
next
  case https: True
  show ?thesis
  proof (cases "url_parse w url")
    case None
    with assms(2) https show ?thesis by (simp add: getSSLCertificateInfo_def)
  next
    case (Some urlObj)
    let ?ev = "tls_connect w (case port urlObj of Some p \<Rightarrow> p | None \<Rightarrow> 443) (hostname urlObj)"
    show ?thesis
    proof (cases ?ev)
      case (Secure_connect c)
      with assms https Some have "certificate_window w c = None"
        and "on_secure_connect w c = Returns info"
        by (simp_all add: parseable_certificate_def getSSLCertificateInfo_def Let_def)
      then show ?thesis by (rule on_secure_connect_no_window)
    next
      case Socket_error
      with assms(2) https Some show ?thesis by (simp add: getSSLCertificateInfo_def Let_def)
    next
      case Socket_timeout
      with assms(2) https Some show ?thesis by (simp add: getSSLCertificateInfo_def Let_def)
    qed
  qed
qed

text \<open>
  The capturer returns unless the teardown of a launched browser throws; the inspector
  never throws.
\<close>

lemma takeScreenshot_settles:
  "launch_ok w \<longrightarrow> close_ok w \<Longrightarrow> \<exists>shot. outcome (takeScreenshot w url i) = Returns shot"
  by (simp add: takeScreenshot_def try_block_def catch_block_def)

lemma getSSLCertificateInfo_never_throws:
  "getSSLCertificateInfo w url \<noteq> Throws"
  by (auto simp: getSSLCertificateInfo_def on_secure_connect_def Let_def
           split: option.splits tls_event.splits if_splits)

lemma process_website_total:
  assumes "getSSLCertificateInfo (cert sw) (url_w website) \<noteq> Never"
    and "launch_ok (capture sw) \<longrightarrow> close_ok (capture sw)"
  shows "\<exists>r. fst (process_website sw website) = Returns r"
proof -
  from assms(1) getSSLCertificateInfo_never_throws [of "cert sw" "url_w website"]
  obtain info where
    info: "getSSLCertificateInfo (cert sw) (url_w website) = Returns info"
    by (cases "getSSLCertificateInfo (cert sw) (url_w website)") auto
  from takeScreenshot_settles [OF assms(2)] obtain shot where
    "outcome (takeScreenshot (capture sw) (url_w website) (id_w website)) = Returns shot"
    by blast
  with info show ?thesis
    by (simp add: process_website_def Let_def)
qed

text \<open>A probe that got a response carries no error message.\<close>

lemma prober_no_error_no_message:
  "status_sc (checkWebsiteStatus w url) \<noteq> Error \<Longrightarrow> error_message_sc (checkWebsiteStatus w url) = None"
  by (cases "fetch w url") (simp_all add: checkWebsiteStatus_def)

text \<open>The inspector says valid only for a parseable certificate whose window holds now.\<close>

lemma inspector_valid_window:
  assumes "getSSLCertificateInfo w url = Returns info" and "ssl_valid_si info"
  shows "\<exists>validFrom validTo. parseable_certificate w url = Some (validFrom, validTo)
           \<and> validFrom \<le> now w \<and> now w \<le> validTo"
proof (cases "parseable_certificate w url")
  case None
  from getSSLCertificateInfo_unparseable [OF None assms(1)] assms(2) show ?thesis
    by (simp add: no_ssl_def)
next
  case (Some win)
  obtain validFrom validTo where win: "win = (validFrom, validTo)" by (cases win)
  from getSSLCertificateInfo_parseable [of w url validFrom validTo] Some win assms
  show ?thesis by auto
qed

text \<open>One day is 86400000 milliseconds; the floor of the real quotient is integer division.\<close>

lemma floor_days: "\<lfloor>real_of_int a / 86400000\<rfloor> = a div ms_per_day"
  using floor_divide_of_int_eq [of a 86400000, where ?'a = real]
  by (simp add: ms_per_day_def)

section \<open>The claims\<close>

text \<open>
  C1. For a non-empty list of websites, every result list the batch operation answers
  with has the length of the input list, and its \<open>k\<close>-th result carries the id and the
  url of the \<open>k\<close>-th input website. The operation does answer with a result list
  whenever, for every website, the inspector's promise settles and the teardown of a
  launched browser does not throw.
\<close>

theorem batch_results_match_input:
  assumes "ws \<noteq> []"
  shows "(\<forall>rs tr. POST W (Json_body (JArr ws)) = (Json_results rs, tr) \<longrightarrow>
            length rs = length ws
          \<and> (\<forall>k < length ws. id_res (rs ! k) = id_w (ws ! k) \<and> url_res (rs ! k) = url_w (ws ! k)))
       \<and> ((\<forall>k < length ws. inspector W ws k \<noteq> Never
                \<and> (launch_ok (capture (W k)) \<longrightarrow> close_ok (capture (W k))))
           \<longrightarrow> (\<exists>rs tr. POST W (Json_body (JArr ws)) = (Json_results rs, tr)))"
proof (intro conjI allI impI)
  fix rs tr
  assume run: "POST W (Json_body (JArr ws)) = (Json_results rs, tr)"
  show "length rs = length ws"
    using POST_results(1) [OF run] .
next
  fix rs tr k
  assume run: "POST W (Json_body (JArr ws)) = (Json_results rs, tr)" and k: "k < length ws"
  from POST_result_nth [OF run k] obtain info shot where
    "rs ! k = build_result (ws ! k) (prober W ws k) info shot" by blast
  then show "id_res (rs ! k) = id_w (ws ! k)" and "url_res (rs ! k) = url_w (ws ! k)"
    by (simp_all add: build_result_def Let_def)
next
  assume settle: "\<forall>k < length ws. inspector W ws k \<noteq> Never
                \<and> (launch_ok (capture (W k)) \<longrightarrow> close_ok (capture (W k)))"
  have "\<forall>k < length ws. \<exists>r. fst (process_website (W (0 + k)) (ws ! k)) = Returns r"
    using settle process_website_total by simp
  from for_websites_total [OF this] obtain rs tr where
    "for_websites W 0 ws [] [] = (Returns rs, tr)" by blast
  with assms show "\<exists>rs tr. POST W (Json_body (JArr ws)) = (Json_results rs, tr)"
    by (simp add: POST_def falsy_def isArray_def elements_def)
qed

text \<open>The three example sites: three results, in order, with the ids and urls of the input.\<close>

theorem batch_results_match_input_witness:
  "[site_a, site_b, site_c] \<noteq> []
   \<and> POST world_batch (Json_body (JArr [site_a, site_b, site_c])) =
       (Json_results [result_a, result_b, result_c], trace_batch)
   \<and> length [result_a, result_b, result_c] = length [site_a, site_b, site_c]
   \<and> id_res result_a = id_w site_a \<and> url_res result_a = url_w site_a
   \<and> id_res result_b = id_w site_b \<and> url_res result_b = url_w site_b
   \<and> id_res result_c = id_w site_c \<and> url_res result_c = url_w site_c"
proof -
  have ne: "[site_a, site_b, site_c] \<noteq> []" by simp
  note inst = batch_results_match_input [OF ne, of world_batch, THEN conjunct1, rule_format,
      OF run_world_batch]
  from inst [THEN conjunct2, rule_format, of 0] inst [THEN conjunct2, rule_format, of 1]
    inst [THEN conjunct2, rule_format, of 2]
  have "id_res result_a = id_w site_a \<and> url_res result_a = url_w site_a
      \<and> id_res result_b = id_w site_b \<and> url_res result_b = url_w site_b
      \<and> id_res result_c = id_w site_c \<and> url_res result_c = url_w site_c"
    by simp
  with ne run_world_batch inst [THEN conjunct1] show ?thesis by simp
qed

text \<open>
  C2. For every website of a batch, the screenshot reference of its result is what the
  capturer returned, and the final status is the prober's status, except that it is
  \<open>Up\<close> when the reference is present and the prober's status is not \<open>Up\<close>. So a
  successful capture always gives the status \<open>Up\<close>.
\<close>

theorem final_status_rule:
  assumes "POST W (Json_body (JArr ws)) = (Json_results rs, tr)" and "k < length ws"
  shows "outcome (capturer W ws k) = Returns (screenshot_path (rs ! k))
       \<and> status (rs ! k) =
           (if screenshot_path (rs ! k) \<noteq> None \<and> status_sc (prober W ws k) \<noteq> Up
            then Up else status_sc (prober W ws k))
       \<and> (screenshot_path (rs ! k) \<noteq> None \<longrightarrow> status (rs ! k) = Up)"
proof -
  from POST_result_nth [OF assms] obtain info shot where
    shot: "outcome (capturer W ws k) = Returns shot" "truthy shot = (shot \<noteq> None)"
    and r: "rs ! k = build_result (ws ! k) (prober W ws k) info shot"
    by blast
  from r have "screenshot_path (rs ! k) = shot"
    by (simp add: build_result_def)
  moreover from r shot(2) have "status (rs ! k) =
      (if shot \<noteq> None \<and> status_sc (prober W ws k) \<noteq> Up then Up else status_sc (prober W ws k))"
    by (simp add: build_result_def)
  ultimately show ?thesis using shot(1) by auto
qed

text \<open>
  The first example site answers the probe with 403 and renders: its status is \<open>Up\<close>.
  The second fails the probe and does not render: its status stays \<open>Error\<close>.
\<close>

theorem final_status_rule_witness:
  "POST world_batch (Json_body (JArr [site_a, site_b, site_c])) =
     (Json_results [result_a, result_b, result_c], trace_batch)
   \<and> (0::nat) < length [site_a, site_b, site_c]
   \<and> status_sc (prober world_batch [site_a, site_b, site_c] 0) = Down
   \<and> screenshot_path result_a = Some ''/screenshots/1_1793577601000.png''
   \<and> status result_a = Up
   \<and> (1::nat) < length [site_a, site_b, site_c]
   \<and> status_sc (prober world_batch [site_a, site_b, site_c] 1) = Error
   \<and> screenshot_path result_b = None
   \<and> status result_b = Error"
proof -
  have k0: "0 < length [site_a, site_b, site_c]" and k1: "1 < length [site_a, site_b, site_c]"
    by simp_all
  have p: "status_sc (prober world_batch [site_a, site_b, site_c] 0) = Down"
    "status_sc (prober world_batch [site_a, site_b, site_c] 1) = Error"
    by (simp_all add: world_defs checkWebsiteStatus_def response_ok_def)
  have s: "screenshot_path result_a = Some ''/screenshots/1_1793577601000.png''"
    "screenshot_path result_b = None"
    by (simp_all add: result_a_def result_b_def)
  from final_status_rule [OF run_world_batch k0] final_status_rule [OF run_world_batch k1] p s
  have "status result_a = Up \<and> status result_b = Error" by simp
  with run_world_batch p s show ?thesis by simp
qed

text \<open>
  C3, as stated, fails. The inspector reads a certificate that expired 305 days ago, a
  determinate "invalid" with both dates and the days remaining; the page renders over
  an https URL; the final \<open>ssl_valid\<close> is true, not the inspector's result.
\<close>

theorem expired_certificate_reported_valid_counterexample:
  "inspector world_expired [site_a] 0 = Returns info_expired
   \<and> ssl_days_remaining_si info_expired = Some (- 305)
   \<and> ssl_valid_si info_expired = False
   \<and> POST world_expired (Json_body (JArr [site_a])) =
       (Json_results [result_expired],
        [Probe ''https://example.com'', Inspect ''https://example.com'',
         Capture ''https://example.com'' 1])
   \<and> ssl_valid result_expired = True"
  using run_world_expired inspect_expired
  by (simp add: world_expired_def site_a_def info_expired_def result_expired_def)

text \<open>
  C3, amended. The final \<open>ssl_valid\<close> is true exactly when the inspector's \<open>ssl_valid\<close>
  is true, or the capture succeeded and the URL starts with \<^verbatim>\<open>https://\<close>. The code does
  not tell a determinate "invalid" from a missing result: either is overridden by a
  successful capture of an https URL, and kept otherwise.
\<close>

theorem final_ssl_valid_rule:
  assumes "POST W (Json_body (JArr ws)) = (Json_results rs, tr)" and "k < length ws"
  shows "\<exists>info. inspector W ws k = Returns info
       \<and> outcome (capturer W ws k) = Returns (screenshot_path (rs ! k))
       \<and> ssl_valid (rs ! k) =
           (ssl_valid_si info
            \<or> (screenshot_path (rs ! k) \<noteq> None \<and> startsWith (url_w (ws ! k)) ''https://''))"
proof -
  from POST_result_nth [OF assms] obtain info shot where
    info: "inspector W ws k = Returns info"
    and shot: "outcome (capturer W ws k) = Returns shot" "truthy shot = (shot \<noteq> None)"
    and r: "rs ! k = build_result (ws ! k) (prober W ws k) info shot"
    by blast
  from r have "screenshot_path (rs ! k) = shot"
    by (simp add: build_result_def)
  moreover from r shot(2) have "ssl_valid (rs ! k) =
      (ssl_valid_si info \<or> (shot \<noteq> None \<and> startsWith (url_w (ws ! k)) ''https://''))"
    by (auto simp: build_result_def)
  ultimately show ?thesis using info shot(1) by auto
qed

text \<open>
  The site with the expired certificate: the inspector says invalid, the capture of the
  https URL succeeds, and the rule gives true.
\<close>

theorem final_ssl_valid_rule_witness:
  "POST world_expired (Json_body (JArr [site_a])) =
     (Json_results [result_expired],
      [Probe ''https://example.com'', Inspect ''https://example.com'',
       Capture ''https://example.com'' 1])
   \<and> (0::nat) < length [site_a]
   \<and> inspector world_expired [site_a] 0 = Returns info_expired
   \<and> ssl_valid result_expired =
       (ssl_valid_si info_expired
        \<or> (screenshot_path result_expired \<noteq> None \<and> startsWith (url_w site_a) ''https://''))"
proof -
  have k0: "0 < length [site_a]" by simp
  have i: "inspector world_expired [site_a] 0 = Returns info_expired"
    using inspect_expired by (simp add: world_expired_def site_a_def)
  from final_ssl_valid_rule [OF run_world_expired k0] i
  have "ssl_valid result_expired =
       (ssl_valid_si info_expired
        \<or> (screenshot_path result_expired \<noteq> None \<and> startsWith (url_w site_a) ''https://''))"
    by auto
  with run_world_expired i show ?thesis by simp
qed

text \<open>
  C4. In every result, \<open>ssl_valid\<close> implies that the inspector read a parseable
  certificate whose validity window contains the inspector's current time, or that the
  capture succeeded for a URL starting with \<^verbatim>\<open>https://\<close>. Conversely a successful capture
  of such a URL gives \<open>ssl_valid\<close>, whatever the prober and the inspector answered.
\<close>

theorem ssl_valid_evidence:
  assumes "POST W (Json_body (JArr ws)) = (Json_results rs, tr)" and "k < length ws"
  shows "outcome (capturer W ws k) = Returns (screenshot_path (rs ! k))
       \<and> (ssl_valid (rs ! k) \<longrightarrow>
            (\<exists>validFrom validTo.
                parseable_certificate (cert (W k)) (url_w (ws ! k)) = Some (validFrom, validTo)
              \<and> validFrom \<le> now (cert (W k)) \<and> now (cert (W k)) \<le> validTo)
          \<or> (screenshot_path (rs ! k) \<noteq> None \<and> startsWith (url_w (ws ! k)) ''https://''))
       \<and> (screenshot_path (rs ! k) \<noteq> None \<and> startsWith (url_w (ws ! k)) ''https://''
            \<longrightarrow> ssl_valid (rs ! k))"
proof -
  from POST_result_nth [OF assms] obtain info shot where
    info: "inspector W ws k = Returns info"
    and shot: "outcome (capturer W ws k) = Returns shot" "truthy shot = (shot \<noteq> None)"
    and r: "rs ! k = build_result (ws ! k) (prober W ws k) info shot"
    by blast
  from r have path: "screenshot_path (rs ! k) = shot"
    by (simp add: build_result_def)
  from r shot(2) have v: "ssl_valid (rs ! k) =
      (ssl_valid_si info \<or> (shot \<noteq> None \<and> startsWith (url_w (ws ! k)) ''https://''))"
    by (auto simp: build_result_def)
  show ?thesis
  proof (intro conjI impI)
    show "outcome (capturer W ws k) = Returns (screenshot_path (rs ! k))"
      using shot(1) path by simp
  next
    assume "ssl_valid (rs ! k)"
    with v path consider "ssl_valid_si info"
      | "screenshot_path (rs ! k) \<noteq> None \<and> startsWith (url_w (ws ! k)) ''https://''"
      by auto
    then show "(\<exists>validFrom validTo.
                parseable_certificate (cert (W k)) (url_w (ws ! k)) = Some (validFrom, validTo)
              \<and> validFrom \<le> now (cert (W k)) \<and> now (cert (W k)) \<le> validTo)
          \<or> (screenshot_path (rs ! k) \<noteq> None \<and> startsWith (url_w (ws ! k)) ''https://'')"
    proof cases
      case 1
      from inspector_valid_window [OF info 1] show ?thesis by blast
    next
      case 2
      then show ?thesis by blast
    qed
  next
    assume "screenshot_path (rs ! k) \<noteq> None \<and> startsWith (url_w (ws ! k)) ''https://''"
    with v path show "ssl_valid (rs ! k)" by simp
  qed
qed

text \<open>
  The first example site: the capture of the https URL succeeds, so \<open>ssl_valid\<close> holds;
  its certificate is parseable and its window contains the current time.
\<close>

theorem ssl_valid_evidence_witness:
  "POST world_batch (Json_body (JArr [site_a, site_b, site_c])) =
     (Json_results [result_a, result_b, result_c], trace_batch)
   \<and> (0::nat) < length [site_a, site_b, site_c]
   \<and> ssl_valid result_a
   \<and> parseable_certificate cert_valid ''https://example.com'' = Some (1767225600000, 1798761600000)
   \<and> (1767225600000::int) \<le> now cert_valid \<and> now cert_valid \<le> 1798761600000
   \<and> screenshot_path result_a \<noteq> None \<and> startsWith (url_w site_a) ''https://''"
proof -
  have k0: "0 < length [site_a, site_b, site_c]" by simp
  have e: "screenshot_path result_a \<noteq> None \<and> startsWith (url_w site_a) ''https://''"
    by (simp add: result_a_def site_a_def startsWith_def)
  from ssl_valid_evidence [OF run_world_batch k0] e have "ssl_valid result_a" by simp
  with run_world_batch window_valid e show ?thesis by (simp add: cert_valid_def)
qed

text \<open>
  C8. For every website of a batch: an error message is present only when the capture
  failed; when the capture succeeded the message is absent, whatever the prober
  reported; when the capture failed the message is the prober's, so it is absent when
  the probe got a response (status \<open>Up\<close> or \<open>Down\<close>).
\<close>

theorem error_message_rule:
  assumes "POST W (Json_body (JArr ws)) = (Json_results rs, tr)" and "k < length ws"
  shows "outcome (capturer W ws k) = Returns (screenshot_path (rs ! k))
       \<and> (error_message (rs ! k) \<noteq> None \<longrightarrow> screenshot_path (rs ! k) = None)
       \<and> (screenshot_path (rs ! k) \<noteq> None \<longrightarrow> error_message (rs ! k) = None)
       \<and> (screenshot_path (rs ! k) = None \<longrightarrow>
            error_message (rs ! k) = error_message_sc (prober W ws k))
       \<and> (screenshot_path (rs ! k) = None \<and> status_sc (prober W ws k) \<noteq> Error \<longrightarrow>
            error_message (rs ! k) = None)"
proof -
  from POST_result_nth [OF assms] obtain info shot where
    shot: "outcome (capturer W ws k) = Returns shot" "truthy shot = (shot \<noteq> None)"
    and r: "rs ! k = build_result (ws ! k) (prober W ws k) info shot"
    by blast
  from r have path: "screenshot_path (rs ! k) = shot"
    by (simp add: build_result_def)
  from r shot(2) have m: "error_message (rs ! k) =
      (if shot \<noteq> None then None else error_message_sc (prober W ws k))"
    by (simp add: build_result_def)
  from shot(1) path m prober_no_error_no_message [of "probe (W k)" "url_w (ws ! k)"]
  show ?thesis by auto
qed

text \<open>
  The first example site renders: no message. The second fails probe and capture: the
  prober's message. The third answers the probe and does not render: no message.
\<close>

theorem error_message_rule_witness:
  "POST world_batch (Json_body (JArr [site_a, site_b, site_c])) =
     (Json_results [result_a, result_b, result_c], trace_batch)
   \<and> (0::nat) < length [site_a, site_b, site_c]
   \<and> screenshot_path result_a \<noteq> None \<and> error_message result_a = None
   \<and> (1::nat) < length [site_a, site_b, site_c]
   \<and> error_message result_b \<noteq> None \<and> screenshot_path result_b = None
   \<and> error_message result_b = error_message_sc (prober world_batch [site_a, site_b, site_c] 1)
   \<and> (2::nat) < length [site_a, site_b, site_c]
   \<and> screenshot_path result_c = None
   \<and> status_sc (prober world_batch [site_a, site_b, site_c] 2) \<noteq> Error
   \<and> error_message result_c = None"
proof -
  have k: "0 < length [site_a, site_b, site_c]" "1 < length [site_a, site_b, site_c]"
    "2 < length [site_a, site_b, site_c]"
    by simp_all
  have h: "screenshot_path result_a \<noteq> None" "error_message result_b \<noteq> None"
    "screenshot_path result_c = None"
    "status_sc (prober world_batch [site_a, site_b, site_c] 2) \<noteq> Error"
    by (simp_all add: world_defs checkWebsiteStatus_def response_ok_def)
  from error_message_rule [OF run_world_batch k(1)] h(1)
  have a: "error_message result_a = None" by simp
  from error_message_rule [OF run_world_batch k(2)] h(2)
  have b: "screenshot_path result_b = None
      \<and> error_message result_b = error_message_sc (prober world_batch [site_a, site_b, site_c] 1)"
    by simp
  from error_message_rule [OF run_world_batch k(3)] h(3,4)
  have c: "error_message result_c = None" by auto
  from run_world_batch h a b c show ?thesis by simp
qed

text \<open>
  In every result the batch produces, the three certificate fields are copied from the
  inspector's answer, and they are all present (when the inspector read a parseable
  certificate) or all absent.
\<close>

lemma certificate_fields_all_or_none:
  assumes "POST W (Json_body (JArr ws)) = (Json_results rs, tr)" and "k < length ws"
  shows "\<exists>info. inspector W ws k = Returns info
       \<and> ssl_expires (rs ! k) = ssl_expires_si info
       \<and> ssl_issued_date (rs ! k) = ssl_issued_date_si info
       \<and> ssl_days_remaining (rs ! k) = ssl_days_remaining_si info
       \<and> (if parseable_certificate (cert (W k)) (url_w (ws ! k)) = None
          then ssl_expires (rs ! k) = None \<and> ssl_issued_date (rs ! k) = None
             \<and> ssl_days_remaining (rs ! k) = None
          else ssl_expires (rs ! k) \<noteq> None \<and> ssl_issued_date (rs ! k) \<noteq> None
             \<and> ssl_days_remaining (rs ! k) \<noteq> None)"
proof -
  from POST_result_nth [OF assms] obtain info shot where
    info: "inspector W ws k = Returns info"
    and r: "rs ! k = build_result (ws ! k) (prober W ws k) info shot"
    by blast
  from r have copy: "ssl_expires (rs ! k) = ssl_expires_si info"
    "ssl_issued_date (rs ! k) = ssl_issued_date_si info"
    "ssl_days_remaining (rs ! k) = ssl_days_remaining_si info"
    by (simp_all add: build_result_def Let_def)
  have "if parseable_certificate (cert (W k)) (url_w (ws ! k)) = None
        then ssl_expires_si info = None \<and> ssl_issued_date_si info = None
           \<and> ssl_days_remaining_si info = None
        else ssl_expires_si info \<noteq> None \<and> ssl_issued_date_si info \<noteq> None
           \<and> ssl_days_remaining_si info \<noteq> None"
  proof (cases "parseable_certificate (cert (W k)) (url_w (ws ! k))")
    case None
    from getSSLCertificateInfo_unparseable [OF None info] None show ?thesis
      by (simp add: no_ssl_def)
  next
    case (Some win)
    obtain validFrom validTo where "win = (validFrom, validTo)" by (cases win)
    with Some getSSLCertificateInfo_parseable [of "cert (W k)" "url_w (ws ! k)" validFrom validTo] info
    show ?thesis by auto
  qed
  with info copy show ?thesis by auto
qed

text \<open>
  The first example site has a parseable certificate and all three fields; for the
  second the socket errors and all three are absent.
\<close>

lemma certificate_fields_all_or_none_example:
  "POST world_batch (Json_body (JArr [site_a, site_b, site_c])) =
     (Json_results [result_a, result_b, result_c], trace_batch)
   \<and> (0::nat) < length [site_a, site_b, site_c]
   \<and> parseable_certificate cert_valid ''https://example.com'' \<noteq> None
   \<and> ssl_expires result_a \<noteq> None \<and> ssl_issued_date result_a \<noteq> None
   \<and> ssl_days_remaining result_a \<noteq> None
   \<and> (1::nat) < length [site_a, site_b, site_c]
   \<and> parseable_certificate cert_refused ''https://nonexistent.invalid'' = None
   \<and> ssl_expires result_b = None \<and> ssl_issued_date result_b = None
   \<and> ssl_days_remaining result_b = None"
proof -
  have k: "0 < length [site_a, site_b, site_c]" "1 < length [site_a, site_b, site_c]"
    by simp_all
  have w: "parseable_certificate (cert (world_batch 0)) (url_w ([site_a, site_b, site_c] ! 0)) \<noteq> None"
    "parseable_certificate (cert (world_batch 1)) (url_w ([site_a, site_b, site_c] ! 1)) = None"
    using window_valid window_refused by (simp_all add: world_batch_def site_a_def)
  from certificate_fields_all_or_none [OF run_world_batch k(1)] w(1)
  have a: "ssl_expires result_a \<noteq> None \<and> ssl_issued_date result_a \<noteq> None
      \<and> ssl_days_remaining result_a \<noteq> None"
    by auto
  from certificate_fields_all_or_none [OF run_world_batch k(2)] w(2)
  have b: "ssl_expires result_b = None \<and> ssl_issued_date result_b = None
      \<and> ssl_days_remaining result_b = None"
    by auto
  from run_world_batch window_valid window_refused a b show ?thesis by simp
qed



text \<open>
  C7. When the certificate is parseable, the inspector returns, the days remaining are
  the floor of (validTo - now) divided by one day, negative when the certificate has
  expired, and \<open>ssl_valid\<close> holds exactly when now lies in the window from validFrom
  to validTo, bounds included.
\<close>

theorem days_remaining_is_floor:
  assumes "parseable_certificate w url = Some (validFrom, validTo)"
  shows "\<exists>info. getSSLCertificateInfo w url = Returns info
       \<and> ssl_days_remaining_si info = Some \<lfloor>real_of_int (validTo - now w) / 86400000\<rfloor>
       \<and> (validTo < now w \<longrightarrow> \<lfloor>real_of_int (validTo - now w) / 86400000\<rfloor> < 0)
       \<and> ssl_valid_si info = (validFrom \<le> now w \<and> now w \<le> validTo)"
proof -
  have "validTo < now w \<longrightarrow> (validTo - now w) div ms_per_day < 0"
    by (simp add: ms_per_day_def div_neg_pos_less0)
  with getSSLCertificateInfo_parseable [OF assms] show ?thesis
    unfolding floor_days by simp
qed

text \<open>
  The expired example certificate: 305 days past its expiry, the days remaining are
  negative and the certificate is not valid.
\<close>

theorem days_remaining_is_floor_witness:
  "parseable_certificate cert_expired ''https://example.com'' = Some (1735689600000, 1767225600000)
   \<and> getSSLCertificateInfo cert_expired ''https://example.com'' = Returns info_expired
   \<and> ssl_days_remaining_si info_expired = Some \<lfloor>real_of_int (1767225600000 - now cert_expired) / 86400000\<rfloor>
   \<and> 1767225600000 < now cert_expired
   \<and> \<lfloor>real_of_int (1767225600000 - now cert_expired) / 86400000\<rfloor> < 0
   \<and> ssl_valid_si info_expired = False"
proof -
  have e: "1767225600000 < now cert_expired" by (simp add: cert_expired_def)
  from days_remaining_is_floor [OF window_expired] inspect_expired e
  have "ssl_days_remaining_si info_expired = Some \<lfloor>real_of_int (1767225600000 - now cert_expired) / 86400000\<rfloor>
      \<and> \<lfloor>real_of_int (1767225600000 - now cert_expired) / 86400000\<rfloor> < 0
      \<and> ssl_valid_si info_expired = False"
    by auto
  with window_expired inspect_expired e show ?thesis by simp
qed

text \<open>
  C6, as stated, fails. A transport failure that is not an abort and whose description is
  the empty text gives the message \<^verbatim>\<open>Connection failed\<close>, not the description truncated
  to 100 characters.
\<close>

theorem silent_failure_message_counterexample:
  "fetch probe_silent ''https://example.com'' = Rejected \<lparr>err_name = ''Error'', err_message = Some []\<rparr>
   \<and> status_sc (checkWebsiteStatus probe_silent ''https://example.com'') = Error
   \<and> error_message_sc (checkWebsiteStatus probe_silent ''https://example.com'')
       = Some ''Connection failed''
   \<and> error_message_sc (checkWebsiteStatus probe_silent ''https://example.com'')
       \<noteq> Some (take 100 [])"
  by (simp add: probe_silent_def checkWebsiteStatus_def)

text \<open>
  C6, amended. A response with a status from 200 to 299 gives \<open>Up\<close>, any other response
  gives \<open>Down\<close>, both without a message; a rejection named \<^verbatim>\<open>AbortError\<close> (the 30 second
  timeout) gives \<open>Error\<close> with the message \<^verbatim>\<open>Request timeout\<close>; any other rejection gives
  \<open>Error\<close> with the first 100 characters of its description when that is not empty, and
  with the message \<^verbatim>\<open>Connection failed\<close> when it has no description or an empty one.
\<close>

theorem prober_outcome_mapping:
  "(fetch w url = Resolved code \<and> 200 \<le> code \<and> code \<le> 299 \<longrightarrow>
      status_sc (checkWebsiteStatus w url) = Up
    \<and> error_message_sc (checkWebsiteStatus w url) = None)
 \<and> (fetch w url = Resolved code \<and> \<not> (200 \<le> code \<and> code \<le> 299) \<longrightarrow>
      status_sc (checkWebsiteStatus w url) = Down
    \<and> error_message_sc (checkWebsiteStatus w url) = None)
 \<and> (fetch w url = Rejected err \<and> err_name err = ''AbortError'' \<longrightarrow>
      status_sc (checkWebsiteStatus w url) = Error
    \<and> error_message_sc (checkWebsiteStatus w url) = Some ''Request timeout'')
 \<and> (fetch w url = Rejected err \<and> err_name err \<noteq> ''AbortError''
      \<and> err_message err = Some m \<and> m \<noteq> [] \<longrightarrow>
      status_sc (checkWebsiteStatus w url) = Error
    \<and> error_message_sc (checkWebsiteStatus w url) = Some (take 100 m)
    \<and> length (take 100 m) \<le> 100)
 \<and> (fetch w url = Rejected err \<and> err_name err \<noteq> ''AbortError''
      \<and> (err_message err = None \<or> err_message err = Some []) \<longrightarrow>
      status_sc (checkWebsiteStatus w url) = Error
    \<and> error_message_sc (checkWebsiteStatus w url) = Some ''Connection failed'')"
  by (auto simp: checkWebsiteStatus_def response_ok_def substring0_def)

text \<open>
  One example probe for each of the five cases.
\<close>

theorem prober_outcome_mapping_witness:
  "fetch probe_up ''https://example.com'' = Resolved 200
   \<and> status_sc (checkWebsiteStatus probe_up ''https://example.com'') = Up
   \<and> fetch probe_forbidden ''https://example.com'' = Resolved 403
   \<and> status_sc (checkWebsiteStatus probe_forbidden ''https://example.com'') = Down
   \<and> fetch probe_timeout ''https://example.com'' =
       Rejected \<lparr>err_name = ''AbortError'', err_message = Some ''This operation was aborted''\<rparr>
   \<and> error_message_sc (checkWebsiteStatus probe_timeout ''https://example.com'')
       = Some ''Request timeout''
   \<and> fetch probe_unreachable ''https://example.com'' =
       Rejected \<lparr>err_name = ''TypeError'', err_message = Some ''fetch failed''\<rparr>
   \<and> error_message_sc (checkWebsiteStatus probe_unreachable ''https://example.com'')
       = Some ''fetch failed''
   \<and> fetch probe_silent ''https://example.com'' =
       Rejected \<lparr>err_name = ''Error'', err_message = Some []\<rparr>
   \<and> error_message_sc (checkWebsiteStatus probe_silent ''https://example.com'')
       = Some ''Connection failed''"
proof -
  have f: "fetch probe_up ''https://example.com'' = Resolved 200"
    "fetch probe_forbidden ''https://example.com'' = Resolved 403"
    "fetch probe_timeout ''https://example.com'' =
       Rejected \<lparr>err_name = ''AbortError'', err_message = Some ''This operation was aborted''\<rparr>"
    "fetch probe_unreachable ''https://example.com'' =
       Rejected \<lparr>err_name = ''TypeError'', err_message = Some ''fetch failed''\<rparr>"
    "fetch probe_silent ''https://example.com'' =
       Rejected \<lparr>err_name = ''Error'', err_message = Some []\<rparr>"
    by (simp_all add: world_defs)
  from f(1) prober_outcome_mapping [of probe_up "''https://example.com''" 200]
  have a: "status_sc (checkWebsiteStatus probe_up ''https://example.com'') = Up" by simp
  from f(2) prober_outcome_mapping [of probe_forbidden "''https://example.com''" 403]
  have b: "status_sc (checkWebsiteStatus probe_forbidden ''https://example.com'') = Down" by simp
  from f(3) prober_outcome_mapping [of probe_timeout "''https://example.com''" _
      "\<lparr>err_name = ''AbortError'', err_message = Some ''This operation was aborted''\<rparr>"]
  have c: "error_message_sc (checkWebsiteStatus probe_timeout ''https://example.com'')
       = Some ''Request timeout''" by simp
  from f(4) prober_outcome_mapping [of probe_unreachable "''https://example.com''" _
      "\<lparr>err_name = ''TypeError'', err_message = Some ''fetch failed''\<rparr>" "''fetch failed''"]
  have d: "error_message_sc (checkWebsiteStatus probe_unreachable ''https://example.com'')
       = Some ''fetch failed''" by simp
  from f(5) prober_outcome_mapping [of probe_silent "''https://example.com''" _
      "\<lparr>err_name = ''Error'', err_message = Some []\<rparr>"]
  have e: "error_message_sc (checkWebsiteStatus probe_silent ''https://example.com'')
       = Some ''Connection failed''" by simp
  from f a b c d e show ?thesis by simp
qed

text \<open>
  The guard of lines 188 to 193: a \<^verbatim>\<open>websites\<close> value that is falsy, not an array or an
  empty array is answered with status 400 before any check is called.
\<close>

lemma POST_rejects_bad_list:
  "falsy websites \<or> \<not> isArray websites \<or> elements websites = [] \<Longrightarrow>
     POST W (Json_body websites) = (Json_error ''No websites provided'' 400, [])"
  by (auto simp: POST_def)

text \<open>
  C5. A request whose body is the JSON value \<^verbatim>\<open>null\<close>, or is not JSON at all, has no
  website list either; the destructuring on line 186 throws before the guard is reached
  and the handler answers with status 500, not 400. No check is called.
\<close>

theorem POST_null_body_server_error:
  "POST W Json_null = (Json_error ''Internal server error'' 500, [])
 \<and> POST W Json_reject = (Json_error ''Internal server error'' 500, [])"
  by (simp add: POST_def)

text \<open>The same in the world of the three example sites.\<close>

theorem POST_null_body_server_error_witness:
  "POST world_batch Json_null = (Json_error ''Internal server error'' 500, [])
 \<and> POST world_batch Json_reject = (Json_error ''Internal server error'' 500, [])"
  using POST_null_body_server_error [of world_batch] by simp

text \<open>
  The capturer calls \<^verbatim>\<open>browser.close()\<close> on every path on which the browser was launched,
  and returns \<^verbatim>\<open>null\<close> when a step of the \<^verbatim>\<open>try\<close> block fails and the teardown does not.
\<close>

lemma takeScreenshot_closes_launched_browser:
  "browser_launched (takeScreenshot w url i) = launch_ok w
 \<and> close_called (takeScreenshot w url i) = browser_launched (takeScreenshot w url i)"
  by (simp add: takeScreenshot_def try_block_def)

lemma takeScreenshot_null_on_failure:
  assumes "launch_ok w \<longrightarrow> close_ok w"
    and "\<not> (launch_ok w \<and> newPage_ok w \<and> setViewportSize_ok w \<and> goto_ok w url
            \<and> waitForTimeout_ok w \<and> screenshot_ok w)"
  shows "outcome (takeScreenshot w url i) = Returns None"
  using assms by (auto simp: takeScreenshot_def try_block_def catch_block_def)

text \<open>
  C9. When the browser is launched and \<^verbatim>\<open>browser.close()\<close> itself throws, the throw
  leaves the \<^verbatim>\<open>finally\<close> block: the capturer does not return \<^verbatim>\<open>null\<close>, it raises, and
  the handler answers the whole batch with status 500.
\<close>

theorem teardown_failure_escapes:
  assumes "launch_ok w" and "\<not> close_ok w"
  shows "outcome (takeScreenshot w url i) = Throws
       \<and> browser_launched (takeScreenshot w url i)
       \<and> close_called (takeScreenshot w url i)"
  using assms by (simp add: takeScreenshot_def try_block_def)

text \<open>
  The example site whose teardown fails after a successful capture: the capturer raises
  and the batch of this one site is answered with status 500.
\<close>

theorem teardown_failure_escapes_witness:
  "launch_ok capture_close_fails \<and> \<not> close_ok capture_close_fails
   \<and> outcome (takeScreenshot capture_close_fails ''https://example.com'' 1) = Throws
   \<and> close_called (takeScreenshot capture_close_fails ''https://example.com'' 1)
   \<and> POST world_close_fails (Json_body (JArr [site_a])) =
       (Json_error ''Internal server error'' 500,
        [Probe ''https://example.com'', Inspect ''https://example.com'',
         Capture ''https://example.com'' 1])"
proof -
  have h: "launch_ok capture_close_fails" "\<not> close_ok capture_close_fails"
    by (simp_all add: capture_close_fails_def)
  have run: "POST world_close_fails (Json_body (JArr [site_a])) =
       (Json_error ''Internal server error'' 500,
        [Probe ''https://example.com'', Inspect ''https://example.com'',
         Capture ''https://example.com'' 1])"
    by (simp add: eval_defs world_defs)
  from teardown_failure_escapes [OF h, of "''https://example.com''" 1] h run
  show ?thesis by simp
qed

end
